theory Spec2Isabelle
  imports Main "HOL-Library.Word"
begin

section \<open>EchoMind: the voice capture and turn dispatch script\<close>

text \<open>
  A shallow embedding of the richer of the two browser scripts of EchoMind (the one built
  on \<^verbatim>\<open>MediaRecorder\<close>). The script is a set of event handlers over five module
  variables (\<^verbatim>\<open>mediaRecorder\<close>, \<^verbatim>\<open>audioChunks\<close>, \<^verbatim>\<open>isRecording\<close>,
  \<^verbatim>\<open>statusIndicator\<close>, \<^verbatim>\<open>audioStream\<close>) and the page. Each handler is a function
  from the state to the next state. An \<^verbatim>\<open>async\<close> function is cut at its \<^verbatim>\<open>await\<close>:
  the part before it issues the request and records the pending continuation, the part
  after it is the handler of the answer. Answers of the browser and of the two endpoints
  are parameters of those handlers.

  Left out: CSS classes, icons and titles of the buttons, scrolling, the time stamp of a
  chat entry, console output and the negotiated MIME type; none of them is read back by
  the script.
\<close>

subsection \<open>Strings\<close>

text \<open>
  A JavaScript string is a sequence of 16-bit code units. The literals of the script are
  ASCII; \<open>lit\<close> gives the code units of one.
\<close>

type_synonym jsstring = "16 word list"

definition lit :: "string \<Rightarrow> jsstring" where
  "lit s = map of_char s"

text \<open>
  \<^verbatim>\<open>String.prototype.trim\<close> strips white space and line terminators at both ends:
  tab, line feed, vertical tab, form feed, carriage return, space, no-break space
  (U+00A0), the other space separators (U+1680, U+2000 to U+200A, U+202F, U+205F,
  U+3000), the line and paragraph separators (U+2028, U+2029) and the byte order mark
  (U+FEFF). All of them are single code units.
\<close>

definition is_space :: "16 word \<Rightarrow> bool" where
  "is_space c =
     (c \<in> {0x9, 0xA, 0xB, 0xC, 0xD, 0x20, 0xA0, 0x1680, 0x2028, 0x2029, 0x202F, 0x205F,
            0x3000, 0xFEFF} \<or>
      (0x2000 \<le> c \<and> c \<le> 0x200A))"

definition trim :: "jsstring \<Rightarrow> jsstring" where
  "trim s = rev (dropWhile is_space (rev (dropWhile is_space s)))"

text \<open>A string is truthy in JavaScript when it is not empty; an absent field is falsy.\<close>

fun truthy :: "jsstring option \<Rightarrow> bool" where
  "truthy None = False"
| "truthy (Some v) = (v \<noteq> [])"

text \<open>The decimal digits of a number, as a template literal prints an HTTP status.\<close>

fun show_nat :: "nat \<Rightarrow> jsstring" where
  "show_nat n =
     (if n < 10 then [of_nat (48 + n)]
      else show_nat (n div 10) @ [of_nat (48 + n mod 10)])"

declare show_nat.simps [simp del]

subsection \<open>Data\<close>

text \<open>The three values of the \<^verbatim>\<open>type\<close> argument of \<^verbatim>\<open>updateStatusIndicator\<close>.\<close>

datatype severity = Info | Listening | Error

record notice =
  message :: jsstring
  severity :: severity

datatype sender = User | AI

text \<open>
  The children of the chat container: the placeholder of the empty page, the messages,
  and the typing indicators. Every typing indicator is a new element; its number is its
  identity.
\<close>

datatype element = Placeholder | Message sender jsstring | TypingIndicator nat

type_synonym blob = "8 word list"

datatype request = Transcribe blob | ProcessInput jsstring

datatype timer_task = HideStatus | AutoSubmit

text \<open>An exception value: \<^verbatim>\<open>error.name\<close> and \<^verbatim>\<open>error.message\<close>.\<close>

record js_error =
  err_name :: jsstring
  err_message :: jsstring

text \<open>
  The answer to \<^verbatim>\<open>getUserMedia\<close>, and what the recorder does with a granted stream:
  the constructor throws, \<^verbatim>\<open>start()\<close> throws, or it starts.
\<close>

datatype gum_result = GumRejected js_error | GumGranted

datatype recorder_env = CtorThrows js_error | StartThrows js_error | RecorderStarts

text \<open>
  The body of a JSON response. The fields are strings or absent, as both endpoints
  declare them.
\<close>

record body =
  text_field :: "jsstring option"
  audio_field :: "jsstring option"
  error_field :: "jsstring option"

datatype json_outcome = BadJson jsstring | Json body

text \<open>
  The outcome of a \<^verbatim>\<open>fetch\<close>: it rejects with a message (a network error), or it
  resolves with \<^verbatim>\<open>response.ok\<close>, \<^verbatim>\<open>response.status\<close> and what
  \<^verbatim>\<open>response.json()\<close> gives.
\<close>

datatype fetch_result = Rejected jsstring | Responded bool nat json_outcome

record state =
  mediaRecorder :: "nat option"
  audioChunks :: "blob list"
  isRecording :: bool
  statusIndicator :: "notice option"
  audioStream :: "nat option"
  userInput :: jsstring
  statusAttached :: bool
  chat :: "element list"
  audioPlayed :: "jsstring list"
  alerts :: "jsstring list"
  gumSupported :: bool
  gumCalls :: nat
  pendingGum :: nat
  liveStreams :: "nat list"
  nextStream :: nat
  recording :: "nat list"
  stopQueued :: "nat list"
  nextRecorder :: nat
  requests :: "request list"
  pendingTranscriptions :: nat
  pendingTurns :: "(nat \<times> jsstring) list"
  nextTyping :: nat
  timers :: "(nat \<times> timer_task) list"

text \<open>
  Beyond the module variables and the input field: \<open>statusAttached\<close> says whether the
  element \<open>statusIndicator\<close> refers to is in the page (it is the only element with the id
  \<^verbatim>\<open>voice-status\<close>); \<open>liveStreams\<close> are the microphone streams whose tracks have not
  been stopped; \<open>recording\<close> and \<open>stopQueued\<close> are the recorders in state
  \<^verbatim>\<open>recording\<close> and those whose \<^verbatim>\<open>stop\<close> event is queued; \<open>requests\<close> is the log
  of every \<^verbatim>\<open>fetch\<close> issued; \<open>pendingTurns\<close> holds, for every \<^verbatim>\<open>/process_input\<close>
  request not yet answered, the typing indicator its continuation captured and its text;
  \<open>timers\<close> are the pending \<^verbatim>\<open>setTimeout\<close> calls with their delays in milliseconds.
\<close>

definition init_state :: state where
  "init_state =
     \<lparr>mediaRecorder = None, audioChunks = [], isRecording = False, statusIndicator = None,
      audioStream = None, userInput = [], statusAttached = False, chat = [Placeholder],
      audioPlayed = [], alerts = [], gumSupported = True, gumCalls = 0, pendingGum = 0,
      liveStreams = [], nextStream = 0, recording = [], stopQueued = [], nextRecorder = 0,
      requests = [], pendingTranscriptions = 0, pendingTurns = [], nextTyping = 0,
      timers = []\<rparr>"

text \<open>The notice the page shows.\<close>

definition shown :: "state \<Rightarrow> notice option" where
  "shown s = (if statusAttached s then statusIndicator s else None)"

subsection \<open>Status announcer\<close>

text \<open>
  \<^verbatim>\<open>updateStatusIndicator(message, type)\<close>: the element with the id is removed, a new
  one is stored in the module variable and inserted, and for \<^verbatim>\<open>'info'\<close> a timer of
  5000 ms is set.
\<close>

definition updateStatusIndicator :: "jsstring \<Rightarrow> severity \<Rightarrow> state \<Rightarrow> state" where
  "updateStatusIndicator msg ty s =
     (let s1 = s\<lparr>statusAttached := False\<rparr>;
          s2 = s1\<lparr>statusIndicator := Some \<lparr>message = msg, severity = ty\<rparr>,
                  statusAttached := True\<rparr>
      in if ty = Info then s2\<lparr>timers := timers s2 @ [(5000, HideStatus)]\<rparr> else s2)"

text \<open>
  The callback of that timer. It reads the module variable \<^verbatim>\<open>statusIndicator\<close> when
  it runs, not the element its call created.
\<close>

definition hideStatus_callback :: "state \<Rightarrow> state" where
  "hideStatus_callback s =
     (if statusIndicator s \<noteq> None \<and> statusAttached s then s\<lparr>statusAttached := False\<rparr>
      else s)"

subsection \<open>Conversation view\<close>

definition addMessageToChat :: "sender \<Rightarrow> jsstring \<Rightarrow> state \<Rightarrow> state" where
  "addMessageToChat who txt s = s\<lparr>chat := remove1 Placeholder (chat s) @ [Message who txt]\<rparr>"

definition showTypingIndicator :: "state \<Rightarrow> nat \<times> state" where
  "showTypingIndicator s =
     (nextTyping s,
      s\<lparr>chat := chat s @ [TypingIndicator (nextTyping s)], nextTyping := Suc (nextTyping s)\<rparr>)"

text \<open>\<^verbatim>\<open>typingIndicator.remove()\<close>: a node outside the page stays outside.\<close>

definition removeTyping :: "nat \<Rightarrow> state \<Rightarrow> state" where
  "removeTyping k s = s\<lparr>chat := removeAll (TypingIndicator k) (chat s)\<rparr>"

subsection \<open>Turn dispatcher\<close>

text \<open>
  \<^verbatim>\<open>processUserInput(text)\<close> up to its \<^verbatim>\<open>await fetch\<close>. There is no test of a
  pending turn in it.
\<close>

definition processUserInput :: "jsstring \<Rightarrow> state \<Rightarrow> state" where
  "processUserInput txt s =
     (if txt = [] \<or> trim txt = [] then s
      else
        let inputText = trim txt;
            s1 = addMessageToChat User inputText s;
            s2 = s1\<lparr>userInput := []\<rparr>;
            s3 = s2\<lparr>statusAttached := False\<rparr>;
            (k, s4) = showTypingIndicator s3
        in s4\<lparr>requests := requests s4 @ [ProcessInput inputText],
               pendingTurns := pendingTurns s4 @ [(k, inputText)]\<rparr>)"

text \<open>
  The \<^verbatim>\<open>try\<close> block after the \<^verbatim>\<open>await\<close>, for the turn whose typing indicator is
  \<open>k\<close>: \<open>Inl\<close> is a thrown error, with its message and the state at the throw.
\<close>

definition processUserInput_try ::
  "nat \<Rightarrow> fetch_result \<Rightarrow> state \<Rightarrow> (jsstring \<times> state) + state" where
  "processUserInput_try k r s =
     (case r of
        Rejected msg \<Rightarrow> Inl (msg, s)
      | Responded ok status js \<Rightarrow>
          if \<not> ok then
            (let errorData = (case js of BadJson _ \<Rightarrow> None | Json d \<Rightarrow> error_field d)
             in Inl (if truthy errorData then the errorData
                     else lit ''Server error: '' @ show_nat status, s))
          else
            (case js of
               BadJson msg \<Rightarrow> Inl (msg, s)
             | Json d \<Rightarrow>
                 let s1 = removeTyping k s in
                 if truthy (error_field d) then Inl (the (error_field d), s1)
                 else
                   let s2 = addMessageToChat AI
                              (case text_field d of None \<Rightarrow> lit ''undefined'' | Some t \<Rightarrow> t) s1
                   in if truthy (audio_field d)
                      then Inr (s2\<lparr>audioPlayed := audioPlayed s2 @ [the (audio_field d)]\<rparr>)
                      else Inr (updateStatusIndicator (lit ''Response received (no audio)'') Info s2)))"

text \<open>The \<^verbatim>\<open>catch\<close> block.\<close>

definition processUserInput_catch :: "nat \<Rightarrow> jsstring \<Rightarrow> state \<Rightarrow> state" where
  "processUserInput_catch k msg s =
     (let s1 = removeTyping k s;
          errorMsg = (if msg = [] then lit ''Sorry, I encountered an error. Please try again.''
                      else msg);
          s2 = addMessageToChat AI (lit ''Error: '' @ errorMsg) s1
      in updateStatusIndicator errorMsg Error s2)"

text \<open>The continuation of the turn \<open>k\<close> when its request is answered.\<close>

definition processUserInput_resume :: "nat \<Rightarrow> fetch_result \<Rightarrow> state \<Rightarrow> state" where
  "processUserInput_resume k r s =
     (let s0 = s\<lparr>pendingTurns := filter (\<lambda>p. fst p \<noteq> k) (pendingTurns s)\<rparr>
      in case processUserInput_try k r s0 of
           Inl (msg, s1) \<Rightarrow> processUserInput_catch k msg s1
         | Inr s1 \<Rightarrow> s1)"

text \<open>The rejection handler of \<^verbatim>\<open>audioPlayer.play()\<close>.\<close>

definition playbackFailed :: "state \<Rightarrow> state" where
  "playbackFailed s =
     updateStatusIndicator (lit ''Audio playback failed. Text response is available above.'') Error s"

text \<open>The send button and the Enter key run the same statements.\<close>

definition sendBtn_click :: "state \<Rightarrow> state" where
  "sendBtn_click s =
     (let txt = trim (userInput s)
      in if txt \<noteq> [] then (processUserInput txt s)\<lparr>userInput := []\<rparr> else s)"

subsection \<open>Capture controller\<close>

definition updateVoiceButtonState :: "bool \<Rightarrow> state \<Rightarrow> state" where
  "updateVoiceButtonState rec s = s\<lparr>isRecording := rec\<rparr>"

text \<open>
  \<^verbatim>\<open>startRecording()\<close> up to \<^verbatim>\<open>await getUserMedia\<close>, which asks the browser
  for a microphone stream.
\<close>

definition startRecording :: "state \<Rightarrow> state" where
  "startRecording s =
     (let s1 = updateStatusIndicator (lit ''Requesting microphone access...'') Info s
      in s1\<lparr>gumCalls := Suc (gumCalls s1), pendingGum := Suc (pendingGum s1)\<rparr>)"

text \<open>The message of the \<^verbatim>\<open>catch\<close> block of \<^verbatim>\<open>startRecording\<close>.\<close>

definition startError_message :: "js_error \<Rightarrow> jsstring" where
  "startError_message e =
     lit ''Failed to start recording. '' @
     (if err_name e = lit ''NotAllowedError'' \<or> err_name e = lit ''PermissionDeniedError''
      then lit ''Microphone permission denied. Please allow microphone access.''
      else if err_name e = lit ''NotFoundError'' \<or> err_name e = lit ''DevicesNotFoundError''
      then lit ''No microphone found. Please connect a microphone.''
      else if err_message e = [] then lit ''Please try again.'' else err_message e)"

text \<open>The \<^verbatim>\<open>catch\<close> block: a notice and the button. It does not touch \<^verbatim>\<open>audioStream\<close>.\<close>

definition startRecording_catch :: "js_error \<Rightarrow> state \<Rightarrow> state" where
  "startRecording_catch e s =
     updateVoiceButtonState False (updateStatusIndicator (startError_message e) Error s)"

text \<open>
  The rest of \<^verbatim>\<open>startRecording()\<close>, run when the browser answers. A granted stream
  is a new one, live from then on, and is assigned to \<^verbatim>\<open>audioStream\<close> before the
  recorder is made.
\<close>

definition startRecording_resume :: "gum_result \<Rightarrow> recorder_env \<Rightarrow> state \<Rightarrow> state" where
  "startRecording_resume g env s =
     (let s0 = s\<lparr>pendingGum := pendingGum s - 1\<rparr>
      in case g of
           GumRejected e \<Rightarrow> startRecording_catch e s0
         | GumGranted \<Rightarrow>
             let st = nextStream s0;
                 s1 = s0\<lparr>audioStream := Some st, liveStreams := st # liveStreams s0,
                         nextStream := Suc st\<rparr>;
                 r = nextRecorder s1;
                 s2 = s1\<lparr>mediaRecorder := Some r, audioChunks := [], nextRecorder := Suc r\<rparr>
             in (case env of
                   CtorThrows e \<Rightarrow> startRecording_catch e s1
                 | StartThrows e \<Rightarrow> startRecording_catch e s2
                 | RecorderStarts \<Rightarrow>
                     (let s3 = s2\<lparr>recording := r # recording s2\<rparr>;
                          s4 = s3\<lparr>isRecording := True\<rparr>;
                          s5 = updateVoiceButtonState True s4
                      in updateStatusIndicator
                           (lit ''Recording... Speak now! (Click stop when done)'') Listening s5)))"

text \<open>
  \<^verbatim>\<open>recorder.stop()\<close>: a recorder in state \<^verbatim>\<open>recording\<close> becomes inactive and its
  \<^verbatim>\<open>stop\<close> event is queued; on an inactive recorder the call does nothing.
\<close>

definition recorder_stop :: "nat \<Rightarrow> state \<Rightarrow> state" where
  "recorder_stop r s =
     (if r \<in> set (recording s)
      then s\<lparr>recording := removeAll r (recording s), stopQueued := stopQueued s @ [r]\<rparr>
      else s)"

definition stopRecording :: "state \<Rightarrow> state" where
  "stopRecording s =
     (if mediaRecorder s \<noteq> None \<and> isRecording s then
        (let s1 = recorder_stop (the (mediaRecorder s)) s;
             s2 = s1\<lparr>isRecording := False\<rparr>;
             s3 = updateVoiceButtonState False s2
         in updateStatusIndicator (lit ''Processing audio...'') Info s3)
      else s)"

definition toggleVoiceRecording :: "state \<Rightarrow> state" where
  "toggleVoiceRecording s =
     (if \<not> gumSupported s then
        s\<lparr>alerts := alerts s @
          [lit ''Audio recording is not supported in your browser. Please use a modern browser like Chrome, Edge, or Firefox.'']\<rparr>
      else if isRecording s then stopRecording s
      else startRecording s)"

text \<open>\<^verbatim>\<open>mediaRecorder.ondataavailable\<close>: \<open>length\<close> is \<^verbatim>\<open>event.data.size\<close>.\<close>

definition mediaRecorder_ondataavailable :: "blob \<Rightarrow> state \<Rightarrow> state" where
  "mediaRecorder_ondataavailable c s =
     (if length c > 0 then s\<lparr>audioChunks := audioChunks s @ [c]\<rparr> else s)"

text \<open>
  \<^verbatim>\<open>processRecordedAudio()\<close> up to \<^verbatim>\<open>await fetch\<close>. The flag is true when the
  function returned without a request. \<^verbatim>\<open>new Blob(audioChunks)\<close> holds the bytes of
  the parts one after the other.
\<close>

definition processRecordedAudio :: "state \<Rightarrow> bool \<times> state" where
  "processRecordedAudio s =
     (if length (audioChunks s) = 0
      then (True, updateStatusIndicator (lit ''No audio recorded. Please try again.'') Error s)
      else
        let audioBlob = concat (audioChunks s);
            s1 = updateStatusIndicator (lit ''Transcribing audio...'') Info s
        in (False, s1\<lparr>requests := requests s1 @ [Transcribe audioBlob],
                       pendingTranscriptions := Suc (pendingTranscriptions s1)\<rparr>))"

text \<open>Its \<^verbatim>\<open>try\<close> block after the \<^verbatim>\<open>await\<close>.\<close>

definition processRecordedAudio_try :: "fetch_result \<Rightarrow> state \<Rightarrow> (jsstring \<times> state) + state" where
  "processRecordedAudio_try r s =
     (case r of
        Rejected msg \<Rightarrow> Inl (msg, s)
      | Responded ok status js \<Rightarrow>
          if \<not> ok then
            (let errorData = (case js of BadJson _ \<Rightarrow> None | Json d \<Rightarrow> error_field d)
             in Inl (if truthy errorData then the errorData
                     else lit ''Server error: '' @ show_nat status, s))
          else
            (case js of
               BadJson msg \<Rightarrow> Inl (msg, s)
             | Json d \<Rightarrow>
                 if truthy (error_field d) then Inl (the (error_field d), s)
                 else if truthy (text_field d) \<and> trim (the (text_field d)) \<noteq> [] then
                   (let s1 = s\<lparr>userInput := trim (the (text_field d))\<rparr>;
                        s2 = updateStatusIndicator
                               (lit ''Transcription complete! Click send or record again.'') Info s1
                    in Inr (s2\<lparr>timers := timers s2 @ [(1000, AutoSubmit)]\<rparr>))
                 else Inr (updateStatusIndicator
                             (lit ''No speech detected. Please try again.'') Error s)))"

text \<open>The \<^verbatim>\<open>catch\<close> and \<^verbatim>\<open>finally\<close> blocks follow.\<close>

definition processRecordedAudio_resume :: "fetch_result \<Rightarrow> state \<Rightarrow> state" where
  "processRecordedAudio_resume r s =
     (let s1 = (case processRecordedAudio_try r s of
                  Inl (msg, s') \<Rightarrow> updateStatusIndicator (lit ''Error: '' @ msg) Error s'
                | Inr s' \<Rightarrow> s')
      in s1\<lparr>audioChunks := []\<rparr>)"

text \<open>
  The end of \<^verbatim>\<open>mediaRecorder.onstop\<close>: the tracks of the stream the module variable
  refers to at that moment are stopped, and the variable is cleared.
\<close>

definition releaseStream :: "state \<Rightarrow> state" where
  "releaseStream s =
     (case audioStream s of
        None \<Rightarrow> s
      | Some st \<Rightarrow> s\<lparr>liveStreams := removeAll st (liveStreams s), audioStream := None\<rparr>)"

text \<open>
  \<^verbatim>\<open>mediaRecorder.onstop\<close>: when \<^verbatim>\<open>processRecordedAudio\<close> returned at once the
  stream is released in the same turn of the event loop, otherwise when the
  transcription request is answered.
\<close>

definition mediaRecorder_onstop :: "state \<Rightarrow> state" where
  "mediaRecorder_onstop s =
     (case processRecordedAudio s of
        (True, s1) \<Rightarrow> releaseStream s1
      | (False, s1) \<Rightarrow> s1)"

definition transcription_answered :: "fetch_result \<Rightarrow> state \<Rightarrow> state" where
  "transcription_answered r s =
     releaseStream
       (processRecordedAudio_resume r (s\<lparr>pendingTranscriptions := pendingTranscriptions s - 1\<rparr>))"

definition mediaRecorder_onerror :: "state \<Rightarrow> state" where
  "mediaRecorder_onerror s =
     stopRecording (updateStatusIndicator (lit ''Recording error. Please try again.'') Error s)"

text \<open>The callback of the timer of 1000 ms set after a transcription.\<close>

definition autoSubmit_callback :: "state \<Rightarrow> state" where
  "autoSubmit_callback s =
     (if trim (userInput s) \<noteq> []
      then (processUserInput (trim (userInput s)) s)\<lparr>userInput := []\<rparr>
      else s)"

subsection \<open>The event loop\<close>

text \<open>
  What the browser can hand to the script, and when: an answer needs a pending request,
  a \<^verbatim>\<open>stop\<close> event a recorder that was stopped, a timer callback a pending timer.
  \<open>fire\<close> is \<open>None\<close> for an event that cannot occur in the state.
\<close>

datatype event =
    Toggle
  | GumAnswer gum_result recorder_env
  | DataAvailable blob
  | RecorderStop nat
  | RecorderError
  | TranscriptionAnswer fetch_result
  | TurnAnswer nat fetch_result
  | TimerFires nat
  | Typed jsstring
  | SendClick
  | PlaybackFails

definition run_timer :: "timer_task \<Rightarrow> state \<Rightarrow> state" where
  "run_timer t s = (case t of HideStatus \<Rightarrow> hideStatus_callback s | AutoSubmit \<Rightarrow> autoSubmit_callback s)"

definition fire :: "event \<Rightarrow> state \<Rightarrow> state option" where
  "fire ev s =
     (case ev of
        Toggle \<Rightarrow> Some (toggleVoiceRecording s)
      | GumAnswer g env \<Rightarrow>
          if pendingGum s > 0 then Some (startRecording_resume g env s) else None
      | DataAvailable c \<Rightarrow>
          if \<not> (recording s = [] \<and> stopQueued s = [])
          then Some (mediaRecorder_ondataavailable c s) else None
      | RecorderStop r \<Rightarrow>
          if r \<in> set (stopQueued s)
          then Some (mediaRecorder_onstop (s\<lparr>stopQueued := removeAll r (stopQueued s)\<rparr>))
          else None
      | RecorderError \<Rightarrow>
          if recording s \<noteq> [] then Some (mediaRecorder_onerror s) else None
      | TranscriptionAnswer r \<Rightarrow>
          if pendingTranscriptions s > 0 then Some (transcription_answered r s) else None
      | TurnAnswer k r \<Rightarrow>
          if k \<in> fst ` set (pendingTurns s) then Some (processUserInput_resume k r s) else None
      | TimerFires i \<Rightarrow>
          if i < length (timers s)
          then Some (run_timer (snd (timers s ! i))
                       (s\<lparr>timers := take i (timers s) @ drop (Suc i) (timers s)\<rparr>))
          else None
      | Typed txt \<Rightarrow> Some (s\<lparr>userInput := txt\<rparr>)
      | SendClick \<Rightarrow> Some (sendBtn_click s)
      | PlaybackFails \<Rightarrow> if audioPlayed s \<noteq> [] then Some (playbackFailed s) else None)"

fun run :: "event list \<Rightarrow> state \<Rightarrow> state option" where
  "run [] s = Some s"
| "run (ev # evs) s = (case fire ev s of None \<Rightarrow> None | Some s' \<Rightarrow> run evs s')"



section \<open>Properties\<close>

lemmas script_defs =
  init_state_def shown_def updateStatusIndicator_def hideStatus_callback_def addMessageToChat_def
  showTypingIndicator_def removeTyping_def processUserInput_def processUserInput_try_def
  processUserInput_catch_def processUserInput_resume_def playbackFailed_def sendBtn_click_def
  updateVoiceButtonState_def startRecording_def startError_message_def startRecording_catch_def
  startRecording_resume_def recorder_stop_def stopRecording_def toggleVoiceRecording_def
  mediaRecorder_ondataavailable_def processRecordedAudio_def processRecordedAudio_try_def
  processRecordedAudio_resume_def releaseStream_def mediaRecorder_onstop_def
  transcription_answered_def mediaRecorder_onerror_def autoSubmit_callback_def run_timer_def
  fire_def Let_def

subsection \<open>Strings\<close>

lemma lit_Nil [simp]: "lit [] = []"
  by (simp add: lit_def)

lemma lit_eq_Nil [simp]: "(lit s = []) = (s = [])"
  by (simp add: lit_def)

lemma lit_append: "lit (a @ b) = lit a @ lit b"
  by (simp add: lit_def)

lemma of_char_word_inj: "((of_char c :: 16 word) = of_char d) = (c = d)"
proof
  assume a: "(of_char c :: 16 word) = of_char d"
  have u: "unat (of_char x :: 16 word) = of_char x" for x
  proof -
    have "(256 :: nat) < 2 ^ 16" by simp
    with nat_of_char_less_256 [of x] have "(of_char x :: nat) < 2 ^ 16"
      by (rule less_trans)
    then have "unat (of_nat (of_char x) :: 16 word) = of_char x"
      by (simp add: unat_of_nat take_bit_nat_eq_self)
    then show ?thesis by (simp add: of_nat_of_char)
  qed
  from a have "unat (of_char c :: 16 word) = unat (of_char d :: 16 word)" by simp
  then have "(of_char c :: nat) = of_char d" by (simp only: u)
  then show "c = d" by simp
qed simp

text \<open>Different literals have different code units.\<close>

lemma lit_eq_iff [simp]: "(lit a = lit b) = (a = b)"
  unfolding lit_def by (rule inj_map_eq_map) (simp add: inj_on_def of_char_word_inj)

lemma trim_Nil [simp]: "trim [] = []"
  by (simp add: trim_def)

lemma dropWhile_last: "dropWhile P xs \<noteq> [] \<Longrightarrow> last (dropWhile P xs) = last xs"
  by (induction xs) (auto split: if_splits)

text \<open>
  What \<open>trim\<close> computes: the string is white space, the trimmed string, white space;
  the trimmed string is empty exactly when the whole string is white space, and
  otherwise neither its first nor its last code unit is white space.
\<close>

lemma trim_eq_Nil_iff: "(trim s = []) = list_all is_space s"
proof -
  have 1: "(trim s = []) = (\<forall>x \<in> set (dropWhile is_space s). is_space x)"
    by (simp add: trim_def)
  have 2: "(\<forall>x \<in> set (dropWhile is_space s). is_space x) = (\<forall>x \<in> set s. is_space x)"
  proof
    assume all: "\<forall>x \<in> set (dropWhile is_space s). is_space x"
    have "dropWhile is_space s = []"
    proof (rule ccontr)
      assume n: "dropWhile is_space s \<noteq> []"
      then have "\<not> is_space (hd (dropWhile is_space s))"
        by (rule hd_dropWhile)
      moreover from n have "hd (dropWhile is_space s) \<in> set (dropWhile is_space s)"
        by (rule hd_in_set)
      ultimately show False using all by blast
    qed
    then show "\<forall>x \<in> set s. is_space x" by simp
  next
    assume "\<forall>x \<in> set s. is_space x"
    then show "\<forall>x \<in> set (dropWhile is_space s). is_space x"
      by (blast dest: set_dropWhileD)
  qed
  show ?thesis by (simp only: 1 2 list_all_iff)
qed

lemma trim_decomp:
  "\<exists>pre post. s = pre @ trim s @ post \<and> list_all is_space pre \<and> list_all is_space post"
proof -
  define a where "a = dropWhile is_space s"
  define tw where "tw = takeWhile is_space (rev a)"
  define dw where "dw = dropWhile is_space (rev a)"
  have "tw @ dw = rev a"
    unfolding tw_def dw_def by (rule takeWhile_dropWhile_id)
  then have "rev (tw @ dw) = rev (rev a)" by (rule arg_cong)
  then have "a = rev dw @ rev tw" by simp
  moreover have "trim s = rev dw"
    by (simp add: trim_def a_def dw_def)
  moreover have "s = takeWhile is_space s @ a"
    by (simp add: a_def)
  ultimately have "s = takeWhile is_space s @ trim s @ rev tw"
    by simp
  moreover have "list_all is_space (takeWhile is_space s)"
    by (auto simp: list_all_iff dest: set_takeWhileD)
  moreover have "list_all is_space (rev tw)"
    by (auto simp: tw_def list_all_iff dest: set_takeWhileD)
  ultimately show ?thesis by blast
qed

lemma trim_ends:
  assumes "trim s \<noteq> []"
  shows "\<not> is_space (hd (trim s)) \<and> \<not> is_space (last (trim s))"
proof -
  define a where "a = dropWhile is_space s"
  define b where "b = dropWhile is_space (rev a)"
  have t: "trim s = rev b"
    by (simp add: trim_def a_def b_def)
  with assms have bn: "b \<noteq> []" by simp
  then have an: "a \<noteq> []" unfolding b_def by auto
  have "last b = last (rev a)"
    using bn unfolding b_def by (rule dropWhile_last)
  then have "hd (rev b) = hd a"
    using bn an by (simp add: hd_rev last_rev)
  moreover have "\<not> is_space (hd a)"
    using an unfolding a_def by (rule hd_dropWhile)
  moreover have "\<not> is_space (hd b)"
    using bn unfolding b_def by (rule hd_dropWhile)
  moreover have "last (rev b) = hd b"
    using bn by (simp add: last_rev)
  ultimately show ?thesis by (simp add: t)
qed

text \<open>A trimmed string has no white space left at either end, so trimming again changes nothing.\<close>

lemma trim_trim [simp]: "trim (trim s) = trim s"
proof (cases "trim s = []")
  case True
  then show ?thesis by simp
next
  case False
  then have e: "\<not> is_space (hd (trim s))" "\<not> is_space (last (trim s))"
    using trim_ends [of s] by simp_all
  from False e(1) have 1: "dropWhile is_space (trim s) = trim s"
    by (cases "trim s") simp_all
  from False e(2) have 2: "dropWhile is_space (rev (trim s)) = rev (trim s)"
    by (cases "rev (trim s)") (simp_all add: last_rev [symmetric] hd_rev)
  have "trim (trim s) = rev (dropWhile is_space (rev (dropWhile is_space (trim s))))"
    by (simp only: trim_def [of "trim s"])
  then show ?thesis by (simp only: 1 2 rev_rev_ident)
qed

lemma trim_hello: "trim (lit ''hello'') = lit ''hello''"
  by (simp add: trim_def lit_def is_space_def)

lemma trim_hi: "trim (lit ''hi'') = lit ''hi''"
  by (simp add: trim_def lit_def is_space_def)

lemma show_nat_500: "show_nat 500 = lit ''500''"
  by code_simp

lemma truthy_the: "truthy x \<Longrightarrow> the x \<noteq> []"
  by (cases x) simp_all

subsection \<open>Microphone stream\<close>

text \<open>
  Where the script does release the stream: the end of \<^verbatim>\<open>onstop\<close>, reached at once
  for an empty buffer and otherwise when the transcription request is answered, whatever
  the answer.
\<close>

lemma releaseStream_releases:
  "audioStream (releaseStream s) = None \<and>
   (case audioStream s of None \<Rightarrow> True | Some st \<Rightarrow> st \<notin> set (liveStreams (releaseStream s)))"
  by (simp add: releaseStream_def split: option.split)

lemma transcription_answered_releases: "audioStream (transcription_answered r s) = None"
  by (simp add: transcription_answered_def releaseStream_releases)

text \<open>
  C1. The claim fails on the path it names. The microphone is granted (stream 0 is
  assigned to \<^verbatim>\<open>audioStream\<close>) and \<^verbatim>\<open>mediaRecorder.start()\<close> throws: the
  \<^verbatim>\<open>catch\<close> block shows a notice and resets the button, and the script is idle with
  stream 0 still live and nothing pending that would stop it. A later recording that
  runs to its end releases its own stream 1 only; stream 0 stays live.
\<close>

theorem start_failure_leaves_stream_live:
  "map_option (\<lambda>s. (isRecording s, audioStream s, liveStreams s, recording s, stopQueued s,
                     pendingGum s, pendingTranscriptions s, timers s))
     (run [Toggle,
           GumAnswer GumGranted
             (StartThrows \<lparr>err_name = (lit ''NotSupportedError''), err_message = (lit '''')\<rparr>)]
        init_state) =
   Some (False, Some 0, [0], [], [], 0, 0, [(5000, HideStatus)]) \<and>
   map_option (\<lambda>s. (isRecording s, audioStream s, liveStreams s, recording s, stopQueued s,
                     pendingGum s, pendingTranscriptions s))
     (run [Toggle,
           GumAnswer GumGranted
             (StartThrows \<lparr>err_name = (lit ''NotSupportedError''), err_message = (lit '''')\<rparr>),
           Toggle, GumAnswer GumGranted RecorderStarts, Toggle, RecorderStop 1]
        init_state) =
   Some (False, None, [0], [], [], 0, 0)"
  by (simp add: script_defs)

subsection \<open>Turn dispatch\<close>

lemma processUserInput_requests:
  "requests (processUserInput t s) =
     (if trim t = [] then requests s else requests s @ [ProcessInput (trim t)])"
  by (auto simp: processUserInput_def addMessageToChat_def showTypingIndicator_def Let_def)

lemma processUserInput_pendingTurns:
  "pendingTurns (processUserInput t s) =
     (if trim t = [] then pendingTurns s else pendingTurns s @ [(nextTyping s, trim t)])"
  by (auto simp: processUserInput_def addMessageToChat_def showTypingIndicator_def Let_def)

lemma processUserInput_chat:
  "chat (processUserInput t s) =
     (if trim t = [] then chat s
      else remove1 Placeholder (chat s) @ [Message User (trim t), TypingIndicator (nextTyping s)])"
  by (auto simp: processUserInput_def addMessageToChat_def showTypingIndicator_def Let_def)

lemma sendBtn_click_twice: "sendBtn_click (sendBtn_click s) = sendBtn_click s"
  by (simp add: sendBtn_click_def Let_def)

text \<open>
  C2, as stated, fails: \<^verbatim>\<open>processUserInput\<close> invoked twice with the same text, the
  first turn not yet answered, issues two requests and has two turns in flight. The same
  happens through the page when the text is typed and sent twice.
\<close>

theorem second_submit_issues_second_request:
  "requests (processUserInput (lit ''hi'') (processUserInput (lit ''hi'') init_state)) =
     [ProcessInput (lit ''hi''), ProcessInput (lit ''hi'')] \<and>
   pendingTurns (processUserInput (lit ''hi'') (processUserInput (lit ''hi'') init_state)) =
     [(0, (lit ''hi'')), (1, (lit ''hi''))] \<and>
   map_option requests (run [Typed (lit ''hi''), SendClick, Typed (lit ''hi''), SendClick] init_state) =
     Some [ProcessInput (lit ''hi''), ProcessInput (lit ''hi'')]"
  by (simp add: script_defs trim_hi)

text \<open>
  C2, amended. \<^verbatim>\<open>processUserInput\<close> has no test of a pending turn. An invocation
  with blank text (empty, or white space only) changes nothing. Every other invocation,
  whatever is pending, issues one request and adds one turn in flight, both with the
  trimmed text: the text without the white space at its two ends. What keeps one
  activation of the send button from sending a text twice is that the field is cleared at
  submission: a second activation on the untouched field changes nothing.
\<close>

theorem submit_has_no_pending_check:
  "(list_all is_space t \<longrightarrow> processUserInput t s = s) \<and>
   (\<not> list_all is_space t \<longrightarrow>
      requests (processUserInput t s) = requests s @ [ProcessInput (trim t)] \<and>
      pendingTurns (processUserInput t s) = pendingTurns s @ [(nextTyping s, trim t)] \<and>
      (\<exists>pre post. t = pre @ trim t @ post \<and> list_all is_space pre \<and> list_all is_space post) \<and>
      \<not> is_space (hd (trim t)) \<and> \<not> is_space (last (trim t))) \<and>
   sendBtn_click (sendBtn_click s) = sendBtn_click s"
proof -
  have 1: "list_all is_space t \<longrightarrow> processUserInput t s = s"
    by (simp add: processUserInput_def trim_eq_Nil_iff)
  have 2: "\<not> list_all is_space t \<longrightarrow>
      requests (processUserInput t s) = requests s @ [ProcessInput (trim t)] \<and>
      pendingTurns (processUserInput t s) = pendingTurns s @ [(nextTyping s, trim t)]"
    by (simp add: processUserInput_requests processUserInput_pendingTurns trim_eq_Nil_iff)
  have 3: "\<exists>pre post. t = pre @ trim t @ post \<and> list_all is_space pre \<and> list_all is_space post"
    by (rule trim_decomp)
  have 4: "\<not> list_all is_space t \<longrightarrow> \<not> is_space (hd (trim t)) \<and> \<not> is_space (last (trim t))"
    using trim_ends [of t] by (simp add: trim_eq_Nil_iff)
  have 5: "sendBtn_click (sendBtn_click s) = sendBtn_click s"
    by (rule sendBtn_click_twice)
  from 1 2 3 4 5 show ?thesis by blast
qed

text \<open>
  Instances, with the turn of \<^verbatim>\<open>hi\<close> pending: a no-break space alone is ignored, and
  \<^verbatim>\<open>hi\<close> with spaces around it is sent again as \<^verbatim>\<open>hi\<close>.
\<close>

theorem submit_has_no_pending_check_witness:
  "processUserInput [0xA0] (processUserInput (lit ''hi'') init_state) =
     processUserInput (lit ''hi'') init_state \<and>
   processUserInput [0x20, 0x9, 0xA0, 0x2003, 0xFEFF] init_state = init_state \<and>
   requests (processUserInput (lit '' hi  '') (processUserInput (lit ''hi'') init_state)) =
     [ProcessInput (lit ''hi''), ProcessInput (lit ''hi'')] \<and>
   pendingTurns (processUserInput (lit '' hi  '') (processUserInput (lit ''hi'') init_state)) =
     [(0, lit ''hi''), (1, lit ''hi'')]"
proof -
  let ?s = "processUserInput (lit ''hi'') init_state"
  have b1: "list_all is_space [0xA0]"
    by (simp add: is_space_def)
  have b2: "list_all is_space [0x20, 0x9, 0xA0, 0x2003, 0xFEFF]"
    by (simp add: is_space_def)
  have n: "\<not> list_all is_space (lit '' hi  '')"
    by (simp add: lit_def is_space_def)
  have t: "trim (lit '' hi  '') = lit ''hi''"
    by (simp add: trim_def lit_def is_space_def)
  have s: "requests ?s = [ProcessInput (lit ''hi'')] \<and> pendingTurns ?s = [(0, lit ''hi'')] \<and>
           nextTyping ?s = 1"
    by (simp add: script_defs trim_hi)
  from submit_has_no_pending_check [of "[0xA0]" ?s] b1
  have 1: "processUserInput [0xA0] ?s = ?s" by blast
  from submit_has_no_pending_check [of "[0x20, 0x9, 0xA0, 0x2003, 0xFEFF]" init_state] b2
  have 2: "processUserInput [0x20, 0x9, 0xA0, 0x2003, 0xFEFF] init_state = init_state" by blast
  from submit_has_no_pending_check [of "lit '' hi  ''" ?s] n
  have "requests (processUserInput (lit '' hi  '') ?s) =
          requests ?s @ [ProcessInput (trim (lit '' hi  ''))] \<and>
        pendingTurns (processUserInput (lit '' hi  '') ?s) =
          pendingTurns ?s @ [(nextTyping ?s, trim (lit '' hi  ''))]"
    by blast
  then have 3: "requests (processUserInput (lit '' hi  '') ?s) =
                  [ProcessInput (lit ''hi''), ProcessInput (lit ''hi'')] \<and>
                pendingTurns (processUserInput (lit '' hi  '') ?s) =
                  [(0, lit ''hi''), (1, lit ''hi'')]"
    by (simp add: t s)
  from 1 2 3 show ?thesis by blast
qed

subsection \<open>Chunk buffering\<close>




lemma transcribed_append_ProcessInput:
  "[b. Transcribe b \<leftarrow> rs @ [ProcessInput x]] = [b. Transcribe b \<leftarrow> rs]"
  by simp










subsection \<open>The voice toggle\<close>

text \<open>
  C4, as stated, fails. After one toggle the microphone request is pending and the flag
  \<^verbatim>\<open>isRecording\<close> is still false; a second toggle asks for the microphone again.
  Likewise after a recording was stopped and its \<^verbatim>\<open>stop\<close> event is still queued,
  a toggle starts a new acquisition.
\<close>

theorem toggle_while_requesting_or_processing:
  "map_option (\<lambda>s. (isRecording s, gumCalls s, pendingGum s)) (run [Toggle] init_state) =
     Some (False, 1, 1) \<and>
   map_option (\<lambda>s. (isRecording s, gumCalls s, pendingGum s)) (run [Toggle, Toggle] init_state) =
     Some (False, 2, 2) \<and>
   map_option (\<lambda>s. (isRecording s, stopQueued s, gumCalls s, pendingGum s))
     (run [Toggle, GumAnswer GumGranted RecorderStarts, Toggle] init_state) =
     Some (False, [0], 1, 0) \<and>
   map_option (\<lambda>s. (isRecording s, stopQueued s, gumCalls s, pendingGum s))
     (run [Toggle, GumAnswer GumGranted RecorderStarts, Toggle, Toggle] init_state) =
     Some (False, [0], 2, 1)"
  by (simp add: script_defs)

text \<open>
  C4, amended. In a browser that can record, the toggle reads the flag
  \<^verbatim>\<open>isRecording\<close> and nothing else. With the flag set it asks for no microphone, and
  it stops the current recorder and clears the flag. With the flag clear, which is the
  case when idle and also while an acquisition is pending or a stopped recording is being
  processed, it asks for the microphone once more. No toggle issues a request to an
  endpoint by itself.
\<close>

theorem toggle_reads_isRecording_only:
  assumes "gumSupported s"
  shows "gumCalls (toggleVoiceRecording s) =
           (if isRecording s then gumCalls s else Suc (gumCalls s)) \<and>
         pendingGum (toggleVoiceRecording s) =
           (if isRecording s then pendingGum s else Suc (pendingGum s)) \<and>
         requests (toggleVoiceRecording s) = requests s \<and>
         isRecording (toggleVoiceRecording s) = (isRecording s \<and> mediaRecorder s = None) \<and>
         stopQueued (toggleVoiceRecording s) =
           (if isRecording s \<and> mediaRecorder s \<noteq> None \<and>
               the (mediaRecorder s) \<in> set (recording s)
            then stopQueued s @ [the (mediaRecorder s)] else stopQueued s)"
  using assms
  by (auto simp: toggleVoiceRecording_def startRecording_def stopRecording_def recorder_stop_def
      updateStatusIndicator_def updateVoiceButtonState_def Let_def)

theorem toggle_reads_isRecording_only_witness:
  "gumSupported init_state \<and> gumCalls (toggleVoiceRecording init_state) = 1 \<and>
   gumCalls (toggleVoiceRecording (toggleVoiceRecording init_state)) = 2"
proof -
  have g0: "gumSupported init_state"
    by (simp add: init_state_def)
  have g1: "gumSupported (toggleVoiceRecording init_state)"
    by (simp add: script_defs)
  have r0: "\<not> isRecording init_state"
    by (simp add: init_state_def)
  have c0: "gumCalls init_state = 0"
    by (simp add: init_state_def)
  from toggle_reads_isRecording_only [OF g0] r0 c0
  have a: "gumCalls (toggleVoiceRecording init_state) = 1"
    and b: "\<not> isRecording (toggleVoiceRecording init_state)"
    by simp_all
  from toggle_reads_isRecording_only [OF g1] a b
  have "gumCalls (toggleVoiceRecording (toggleVoiceRecording init_state)) = 2"
    by simp
  with g0 a show ?thesis by simp
qed

subsection \<open>Status notices\<close>

text \<open>Once the callback of the timer has run, no notice is shown, whatever was shown before.\<close>

lemma hideStatus_callback_hides: "shown (hideStatus_callback s) = None"
  by (simp add: hideStatus_callback_def shown_def)

text \<open>
  C5. The claim fails for the \<^verbatim>\<open>listening\<close> notice of every recording. The toggle
  announces \<^verbatim>\<open>Requesting microphone access...\<close> with severity \<^verbatim>\<open>info\<close>, which
  sets a timer; the grant replaces that notice by the \<^verbatim>\<open>listening\<close> one. When the
  timer fires, its callback removes the element the module variable refers to at that
  moment, the \<^verbatim>\<open>listening\<close> notice, though nothing replaced or cleared it and the
  recording goes on.
\<close>

theorem stale_timer_removes_listening_notice:
  "map_option (\<lambda>s. (shown s, timers s))
     (run [Toggle, GumAnswer GumGranted RecorderStarts] init_state) =
     Some (Some \<lparr>message = (lit ''Recording... Speak now! (Click stop when done)''),
                 severity = Listening\<rparr>, [(5000, HideStatus)]) \<and>
   map_option (\<lambda>s. (shown s, isRecording s))
     (run [Toggle, GumAnswer GumGranted RecorderStarts, TimerFires 0] init_state) =
     Some (None, True)"
  by (simp add: script_defs)

subsection \<open>Empty recording\<close>



subsection \<open>Failed turns\<close>

lemma catch_effect:
  "msg \<noteq> [] \<Longrightarrow>
   chat (processUserInput_catch k msg s) =
     remove1 Placeholder (removeAll (TypingIndicator k) (chat s)) @
       [Message AI ((lit ''Error: '') @ msg)] \<and>
   shown (processUserInput_catch k msg s) = Some \<lparr>message = msg, severity = Error\<rparr> \<and>
   requests (processUserInput_catch k msg s) = requests s \<and>
   timers (processUserInput_catch k msg s) = timers s \<and>
   pendingTurns (processUserInput_catch k msg s) = pendingTurns s"
  by (simp add: processUserInput_catch_def removeTyping_def addMessageToChat_def
      updateStatusIndicator_def shown_def Let_def)

lemma catch_fallback:
  "chat (processUserInput_catch k [] s) =
     remove1 Placeholder (removeAll (TypingIndicator k) (chat s)) @
       [Message AI ((lit ''Error: '') @ (lit ''Sorry, I encountered an error. Please try again.''))] \<and>
   shown (processUserInput_catch k [] s) =
     Some \<lparr>message = (lit ''Sorry, I encountered an error. Please try again.''), severity = Error\<rparr> \<and>
   requests (processUserInput_catch k [] s) = requests s \<and>
   timers (processUserInput_catch k [] s) = timers s \<and>
   pendingTurns (processUserInput_catch k [] s) = pendingTurns s"
  by (simp add: processUserInput_catch_def removeTyping_def addMessageToChat_def
      updateStatusIndicator_def shown_def Let_def)

lemma typing_removed:
  "TypingIndicator k \<notin> set (remove1 Placeholder (removeAll (TypingIndicator k) xs) @ [Message w t])"
proof -
  have "set (remove1 Placeholder (removeAll (TypingIndicator k) xs))
          \<subseteq> set (removeAll (TypingIndicator k) xs)"
    by (rule set_remove1_subset)
  then show ?thesis by auto
qed

text \<open>
  C7. Let the request of the turn with typing indicator \<open>k\<close> fail: \<^verbatim>\<open>fetch\<close> rejects
  with message \<open>m\<close>, or the status is not a success, or the body of a successful
  response has a populated \<^verbatim>\<open>error\<close> field. Let \<open>d\<close> be the failure detail: the
  message (a fixed apology when it is empty), the \<^verbatim>\<open>error\<close> field of the body, or
  \<^verbatim>\<open>Server error:\<close> and the status. Then the typing indicator is gone, one assistant
  entry \<^verbatim>\<open>Error:\<close> \<open>d\<close> is appended to the chat, the notice shown is \<open>d\<close> with
  severity \<^verbatim>\<open>error\<close>, and no request is issued and no timer set: nothing is retried.
\<close>

theorem failed_turn_is_reported:
  assumes "(r = Rejected m \<and>
              d = (if m = [] then (lit ''Sorry, I encountered an error. Please try again.'') else m)) \<or>
           (r = Responded False c js \<and>
              d = (case js of
                     BadJson x \<Rightarrow> (lit ''Server error: '') @ show_nat c
                   | Json e \<Rightarrow> if truthy (error_field e) then the (error_field e)
                              else (lit ''Server error: '') @ show_nat c)) \<or>
           (r = Responded True c (Json b) \<and> truthy (error_field b) \<and> d = the (error_field b))"
  shows "TypingIndicator k \<notin> set (chat (processUserInput_resume k r s)) \<and>
         chat (processUserInput_resume k r s) =
           remove1 Placeholder (removeAll (TypingIndicator k) (chat s)) @
             [Message AI ((lit ''Error: '') @ d)] \<and>
         shown (processUserInput_resume k r s) = Some \<lparr>message = d, severity = Error\<rparr> \<and>
         requests (processUserInput_resume k r s) = requests s \<and>
         timers (processUserInput_resume k r s) = timers s \<and>
         pendingTurns (processUserInput_resume k r s) =
           filter (\<lambda>p. fst p \<noteq> k) (pendingTurns s)"
proof -
  let ?s0 = "s\<lparr>pendingTurns := filter (\<lambda>p. fst p \<noteq> k) (pendingTurns s)\<rparr>"
  consider (net) "r = Rejected m"
      "d = (if m = [] then (lit ''Sorry, I encountered an error. Please try again.'') else m)"
    | (http) "r = Responded False c js"
        "d = (case js of BadJson x \<Rightarrow> (lit ''Server error: '') @ show_nat c
              | Json e \<Rightarrow> if truthy (error_field e) then the (error_field e)
                         else (lit ''Server error: '') @ show_nat c)"
    | (field) "r = Responded True c (Json b)" "truthy (error_field b)" "d = the (error_field b)"
    using assms by blast
  then have main: "chat (processUserInput_resume k r s) =
           remove1 Placeholder (removeAll (TypingIndicator k) (chat s)) @
             [Message AI ((lit ''Error: '') @ d)] \<and>
         shown (processUserInput_resume k r s) = Some \<lparr>message = d, severity = Error\<rparr> \<and>
         requests (processUserInput_resume k r s) = requests s \<and>
         timers (processUserInput_resume k r s) = timers s \<and>
         pendingTurns (processUserInput_resume k r s) =
           filter (\<lambda>p. fst p \<noteq> k) (pendingTurns s)"
  proof cases
    case net
    have t: "processUserInput_resume k r s = processUserInput_catch k m ?s0"
      using net by (simp add: processUserInput_resume_def processUserInput_try_def)
    show ?thesis
    proof (cases "m = []")
      case True
      with t net catch_fallback [of k ?s0] show ?thesis by simp
    next
      case False
      with t net catch_effect [of m k ?s0] show ?thesis by simp
    qed
  next
    case http
    have dn: "d \<noteq> []"
      using http by (cases js) (simp_all add: truthy_the)
    have t: "processUserInput_resume k r s = processUserInput_catch k d ?s0"
      using http
      by (cases js) (simp_all add: processUserInput_resume_def processUserInput_try_def Let_def)
    from t catch_effect [OF dn, of k ?s0] show ?thesis by simp
  next
    case field
    have dn: "d \<noteq> []"
      using field by (simp add: truthy_the)
    have t: "processUserInput_resume k r s = processUserInput_catch k d (removeTyping k ?s0)"
      using field
      by (simp add: processUserInput_resume_def processUserInput_try_def Let_def)
    from t catch_effect [OF dn, of k "removeTyping k ?s0"] show ?thesis
      by (simp add: removeTyping_def)
  qed
  then have "TypingIndicator k \<notin> set (chat (processUserInput_resume k r s))"
    by (simp only: typing_removed not_False_eq_True)
  then show ?thesis using main by (rule conjI)
qed

text \<open>
  An instance of each kind of failure, for the turn of the text \<^verbatim>\<open>hi\<close>: the endpoint
  answers with status 500 and no JSON body, the request fails in the network, and the
  endpoint answers with an \<^verbatim>\<open>error\<close> field.
\<close>

theorem failed_turn_is_reported_witness:
  "chat (processUserInput_resume 0 (Responded False 500 (BadJson []))
           (processUserInput (lit ''hi'') init_state)) =
     [Message User (lit ''hi''), Message AI (lit ''Error: Server error: 500'')] \<and>
   shown (processUserInput_resume 0 (Responded False 500 (BadJson []))
            (processUserInput (lit ''hi'') init_state)) =
     Some \<lparr>message = (lit ''Server error: 500''), severity = Error\<rparr> \<and>
   requests (processUserInput_resume 0 (Responded False 500 (BadJson []))
               (processUserInput (lit ''hi'') init_state)) = [ProcessInput (lit ''hi'')] \<and>
   pendingTurns (processUserInput_resume 0 (Responded False 500 (BadJson []))
                   (processUserInput (lit ''hi'') init_state)) = [] \<and>
   chat (processUserInput_resume 0 (Rejected (lit ''Failed to fetch''))
           (processUserInput (lit ''hi'') init_state)) =
     [Message User (lit ''hi''), Message AI (lit ''Error: Failed to fetch'')] \<and>
   requests (processUserInput_resume 0 (Rejected (lit ''Failed to fetch''))
               (processUserInput (lit ''hi'') init_state)) = [ProcessInput (lit ''hi'')] \<and>
   chat (processUserInput_resume 0
           (Responded True 200
              (Json \<lparr>text_field = None, audio_field = None, error_field = Some (lit ''quota'')\<rparr>))
           (processUserInput (lit ''hi'') init_state)) =
     [Message User (lit ''hi''), Message AI (lit ''Error: quota'')] \<and>
   requests (processUserInput_resume 0
               (Responded True 200
                  (Json \<lparr>text_field = None, audio_field = None, error_field = Some (lit ''quota'')\<rparr>))
               (processUserInput (lit ''hi'') init_state)) = [ProcessInput (lit ''hi'')]"
proof -
  let ?s = "processUserInput (lit ''hi'') init_state"
  let ?b = "\<lparr>text_field = None, audio_field = None, error_field = Some (lit ''quota'')\<rparr>"
  have s: "chat ?s = [Message User (lit ''hi''), TypingIndicator 0] \<and>
           requests ?s = [ProcessInput (lit ''hi'')] \<and> pendingTurns ?s = [(0, (lit ''hi''))]"
    by (simp add: script_defs trim_hi)
  have "(lit ''Server error: 500'') =
          (case BadJson [] of
             BadJson x \<Rightarrow> (lit ''Server error: '') @ show_nat 500
           | Json e \<Rightarrow> if truthy (error_field e) then the (error_field e)
                      else (lit ''Server error: '') @ show_nat 500)"
    by (simp add: show_nat_500 lit_def)
  then have h1:
    "(Responded False 500 (BadJson []) = Rejected [] \<and>
        (lit ''Server error: 500'') =
          (if [] = [] then (lit ''Sorry, I encountered an error. Please try again.'') else [])) \<or>
     (Responded False 500 (BadJson []) = Responded False 500 (BadJson []) \<and>
        (lit ''Server error: 500'') =
          (case BadJson [] of
             BadJson x \<Rightarrow> (lit ''Server error: '') @ show_nat 500
           | Json e \<Rightarrow> if truthy (error_field e) then the (error_field e)
                      else (lit ''Server error: '') @ show_nat 500)) \<or>
     (Responded False 500 (BadJson []) = Responded True 500 (Json ?b) \<and>
        truthy (error_field ?b) \<and> (lit ''Server error: 500'') = the (error_field ?b))"
    by blast
  have h2:
    "(Rejected (lit ''Failed to fetch'') = Rejected (lit ''Failed to fetch'') \<and>
        (lit ''Failed to fetch'') =
          (if (lit ''Failed to fetch'') = []
           then (lit ''Sorry, I encountered an error. Please try again.'') else (lit ''Failed to fetch''))) \<or>
     (Rejected (lit ''Failed to fetch'') = Responded False 0 (BadJson []) \<and>
        (lit ''Failed to fetch'') =
          (case BadJson [] of
             BadJson x \<Rightarrow> (lit ''Server error: '') @ show_nat 0
           | Json e \<Rightarrow> if truthy (error_field e) then the (error_field e)
                      else (lit ''Server error: '') @ show_nat 0)) \<or>
     (Rejected (lit ''Failed to fetch'') = Responded True 0 (Json ?b) \<and>
        truthy (error_field ?b) \<and> (lit ''Failed to fetch'') = the (error_field ?b))"
    by simp
  have h3:
    "(Responded True 200 (Json ?b) = Rejected [] \<and>
        (lit ''quota'') =
          (if [] = [] then (lit ''Sorry, I encountered an error. Please try again.'') else [])) \<or>
     (Responded True 200 (Json ?b) = Responded False 200 (BadJson []) \<and>
        (lit ''quota'') =
          (case BadJson [] of
             BadJson x \<Rightarrow> (lit ''Server error: '') @ show_nat 200
           | Json e \<Rightarrow> if truthy (error_field e) then the (error_field e)
                      else (lit ''Server error: '') @ show_nat 200)) \<or>
     (Responded True 200 (Json ?b) = Responded True 200 (Json ?b) \<and>
        truthy (error_field ?b) \<and> (lit ''quota'') = the (error_field ?b))"
    by simp
  from failed_turn_is_reported [OF h1, of 0 ?s] s
  have a: "chat (processUserInput_resume 0 (Responded False 500 (BadJson [])) ?s) =
             [Message User (lit ''hi''), Message AI (lit ''Error: Server error: 500'')] \<and>
           shown (processUserInput_resume 0 (Responded False 500 (BadJson [])) ?s) =
             Some \<lparr>message = (lit ''Server error: 500''), severity = Error\<rparr> \<and>
           requests (processUserInput_resume 0 (Responded False 500 (BadJson [])) ?s) =
             [ProcessInput (lit ''hi'')] \<and>
           pendingTurns (processUserInput_resume 0 (Responded False 500 (BadJson [])) ?s) = []"
    by (simp add: lit_append [symmetric])
  from failed_turn_is_reported [OF h2, of 0 ?s] s
  have b: "chat (processUserInput_resume 0 (Rejected (lit ''Failed to fetch'')) ?s) =
             [Message User (lit ''hi''), Message AI (lit ''Error: Failed to fetch'')] \<and>
           requests (processUserInput_resume 0 (Rejected (lit ''Failed to fetch'')) ?s) =
             [ProcessInput (lit ''hi'')]"
    by (simp add: lit_append [symmetric])
  from failed_turn_is_reported [OF h3, of 0 ?s] s
  have c: "chat (processUserInput_resume 0 (Responded True 200 (Json ?b)) ?s) =
             [Message User (lit ''hi''), Message AI (lit ''Error: quota'')] \<and>
           requests (processUserInput_resume 0 (Responded True 200 (Json ?b)) ?s) =
             [ProcessInput (lit ''hi'')]"
    by (simp add: lit_append [symmetric])
  from a b c show ?thesis by blast
qed

subsection \<open>Empty results\<close>

text \<open>
  C8, as stated, fails: two of the three conditions are announced with severity
  \<^verbatim>\<open>error\<close>, the severity failures are announced with. A recording stopped before
  any chunk arrived, and a transcription whose text is white space:
\<close>

theorem empty_results_use_error_severity:
  "map_option shown
     (run [Toggle, GumAnswer GumGranted RecorderStarts, Toggle, RecorderStop 0] init_state) =
     Some (Some \<lparr>message = (lit ''No audio recorded. Please try again.''), severity = Error\<rparr>) \<and>
   map_option shown
     (run [Toggle, GumAnswer GumGranted RecorderStarts, Toggle, DataAvailable [1, 2],
           RecorderStop 0,
           TranscriptionAnswer
             (Responded True 200
                (Json \<lparr>text_field = Some (lit ''  ''), audio_field = None, error_field = None\<rparr>))]
        init_state) =
     Some (Some \<lparr>message = (lit ''No speech detected. Please try again.''), severity = Error\<rparr>)"
  by (simp add: script_defs trim_def lit_def is_space_def)

text \<open>
  C8, amended. Each empty result has a fixed message of its own: an empty recording
  \<^verbatim>\<open>No audio recorded. Please try again.\<close> and a transcription without text or with
  white space only \<^verbatim>\<open>No speech detected. Please try again.\<close>, both with severity
  \<^verbatim>\<open>error\<close>; a turn answered without audio \<^verbatim>\<open>Response received (no audio)\<close>, with
  severity \<^verbatim>\<open>info\<close>.
\<close>

theorem empty_results_notices:
  "(audioChunks s = [] \<longrightarrow>
      shown (mediaRecorder_onstop s) =
        Some \<lparr>message = (lit ''No audio recorded. Please try again.''), severity = Error\<rparr>) \<and>
   (\<not> truthy (error_field b) \<and> (\<not> truthy (text_field b) \<or> trim (the (text_field b)) = []) \<longrightarrow>
      shown (transcription_answered (Responded True c (Json b)) s) =
        Some \<lparr>message = (lit ''No speech detected. Please try again.''), severity = Error\<rparr>) \<and>
   (\<not> truthy (error_field b') \<and> \<not> truthy (audio_field b') \<longrightarrow>
      shown (processUserInput_resume k (Responded True c' (Json b')) s) =
        Some \<lparr>message = (lit ''Response received (no audio)''), severity = Info\<rparr>)"
  by (auto simp: mediaRecorder_onstop_def processRecordedAudio_def releaseStream_def
      transcription_answered_def processRecordedAudio_resume_def processRecordedAudio_try_def
      processUserInput_resume_def processUserInput_try_def removeTyping_def addMessageToChat_def
      updateStatusIndicator_def shown_def Let_def split: option.split)

theorem empty_results_notices_witness:
  "audioChunks init_state = [] \<and>
   shown (mediaRecorder_onstop init_state) =
     Some \<lparr>message = (lit ''No audio recorded. Please try again.''), severity = Error\<rparr> \<and>
   shown (transcription_answered
            (Responded True 200
               (Json \<lparr>text_field = Some (lit ''  ''), audio_field = None, error_field = None\<rparr>))
            init_state) =
     Some \<lparr>message = (lit ''No speech detected. Please try again.''), severity = Error\<rparr> \<and>
   shown (processUserInput_resume 0
            (Responded True 200
               (Json \<lparr>text_field = Some (lit ''ok''), audio_field = None, error_field = None\<rparr>))
            (processUserInput (lit ''hi'') init_state)) =
     Some \<lparr>message = (lit ''Response received (no audio)''), severity = Info\<rparr>"
proof -
  have h1: "audioChunks init_state = []"
    by (simp add: init_state_def)
  have h2: "trim (the (Some (lit ''  ''))) = []"
    by (simp add: trim_def lit_def is_space_def)
  from empty_results_notices
         [of init_state "\<lparr>text_field = Some (lit ''  ''), audio_field = None, error_field = None\<rparr>"
             200 "\<lparr>text_field = Some (lit ''ok''), audio_field = None, error_field = None\<rparr>"
             0 200]
  have a: "shown (mediaRecorder_onstop init_state) =
             Some \<lparr>message = (lit ''No audio recorded. Please try again.''), severity = Error\<rparr>"
    and b: "shown (transcription_answered
            (Responded True 200
               (Json \<lparr>text_field = Some (lit ''  ''), audio_field = None, error_field = None\<rparr>))
            init_state) =
     Some \<lparr>message = (lit ''No speech detected. Please try again.''), severity = Error\<rparr>"
    using h1 h2 by simp_all
  from empty_results_notices
         [of "processUserInput (lit ''hi'') init_state" undefined
             200 "\<lparr>text_field = Some (lit ''ok''), audio_field = None, error_field = None\<rparr>"
             0 200]
  have c: "shown (processUserInput_resume 0
            (Responded True 200
               (Json \<lparr>text_field = Some (lit ''ok''), audio_field = None, error_field = None\<rparr>))
            (processUserInput (lit ''hi'') init_state)) =
     Some \<lparr>message = (lit ''Response received (no audio)''), severity = Info\<rparr>"
    by simp
  from h1 a b c show ?thesis by simp
qed

subsection \<open>From transcription to turn\<close>

text \<open>
  C9. When the transcription endpoint answers with the text \<^verbatim>\<open>hello\<close>, the input
  field holds \<^verbatim>\<open>hello\<close> as soon as the answer is processed, and a timer of 1000 ms
  for the auto-submission is pending. The callback of that timer, run on this state,
  issues the request for a turn with the input \<^verbatim>\<open>hello\<close>, which is then in flight,
  and the chat shows the user entry \<^verbatim>\<open>hello\<close>.
\<close>

theorem hello_round_trip:
  "userInput (transcription_answered
      (Responded True c
         (Json \<lparr>text_field = Some (lit ''hello''), audio_field = None, error_field = None\<rparr>)) s)
     = (lit ''hello'') \<and>
   timers (transcription_answered
      (Responded True c
         (Json \<lparr>text_field = Some (lit ''hello''), audio_field = None, error_field = None\<rparr>)) s)
     = timers s @ [(5000, HideStatus), (1000, AutoSubmit)] \<and>
   requests (autoSubmit_callback (transcription_answered
      (Responded True c
         (Json \<lparr>text_field = Some (lit ''hello''), audio_field = None, error_field = None\<rparr>)) s))
     = requests s @ [ProcessInput (lit ''hello'')] \<and>
   pendingTurns (autoSubmit_callback (transcription_answered
      (Responded True c
         (Json \<lparr>text_field = Some (lit ''hello''), audio_field = None, error_field = None\<rparr>)) s))
     = pendingTurns s @ [(nextTyping s, (lit ''hello''))] \<and>
   chat (autoSubmit_callback (transcription_answered
      (Responded True c
         (Json \<lparr>text_field = Some (lit ''hello''), audio_field = None, error_field = None\<rparr>)) s))
     = remove1 Placeholder (chat s) @ [Message User (lit ''hello''), TypingIndicator (nextTyping s)]"
proof -
  let ?s = "transcription_answered
      (Responded True c
         (Json \<lparr>text_field = Some (lit ''hello''), audio_field = None, error_field = None\<rparr>)) s"
  have u: "userInput ?s = (lit ''hello'')"
    and t: "timers ?s = timers s @ [(5000, HideStatus), (1000, AutoSubmit)]"
    and r: "requests ?s = requests s" and p: "pendingTurns ?s = pendingTurns s"
    and n: "nextTyping ?s = nextTyping s" and c: "chat ?s = chat s"
    by (simp_all add: transcription_answered_def processRecordedAudio_resume_def
        processRecordedAudio_try_def releaseStream_def updateStatusIndicator_def trim_hello
        split: option.split)
  have a: "autoSubmit_callback ?s = (processUserInput (lit ''hello'') ?s)\<lparr>userInput := []\<rparr>"
    by (simp add: autoSubmit_callback_def u trim_hello)
  show ?thesis
    by (simp add: a u t r p n c processUserInput_requests processUserInput_pendingTurns
        processUserInput_chat trim_hello)
qed

text \<open>
  C10. A transcription that succeeds with text that is not blank (not empty and not white
  space only) issues no turn itself: it sets the timer of 1000 ms. The callback of that
  timer reads the input field when it runs. When the field is blank then, the callback
  changes nothing: no request, no turn. Otherwise it submits the trimmed value of the
  field as it is at that moment: the field without the white space at its two ends.
\<close>

theorem auto_submit_rechecks_field:
  "(\<not> truthy (error_field b) \<and> truthy (text_field b) \<and>
    \<not> list_all is_space (the (text_field b)) \<longrightarrow>
      timers (transcription_answered (Responded True c (Json b)) s) =
        timers s @ [(5000, HideStatus), (1000, AutoSubmit)] \<and>
      requests (transcription_answered (Responded True c (Json b)) s) = requests s \<and>
      pendingTurns (transcription_answered (Responded True c (Json b)) s) = pendingTurns s) \<and>
   run_timer AutoSubmit s' = autoSubmit_callback s' \<and>
   (list_all is_space (userInput s') \<longrightarrow> autoSubmit_callback s' = s') \<and>
   (\<not> list_all is_space (userInput s') \<longrightarrow>
      requests (autoSubmit_callback s') = requests s' @ [ProcessInput (trim (userInput s'))] \<and>
      pendingTurns (autoSubmit_callback s') =
        pendingTurns s' @ [(nextTyping s', trim (userInput s'))] \<and>
      (\<exists>pre post. userInput s' = pre @ trim (userInput s') @ post \<and>
                  list_all is_space pre \<and> list_all is_space post) \<and>
      \<not> is_space (hd (trim (userInput s'))) \<and> \<not> is_space (last (trim (userInput s'))))"
proof -
  have 1: "\<not> truthy (error_field b) \<and> truthy (text_field b) \<and>
           \<not> list_all is_space (the (text_field b)) \<longrightarrow>
      timers (transcription_answered (Responded True c (Json b)) s) =
        timers s @ [(5000, HideStatus), (1000, AutoSubmit)] \<and>
      requests (transcription_answered (Responded True c (Json b)) s) = requests s \<and>
      pendingTurns (transcription_answered (Responded True c (Json b)) s) = pendingTurns s"
    by (simp add: transcription_answered_def processRecordedAudio_resume_def
        processRecordedAudio_try_def releaseStream_def updateStatusIndicator_def
        trim_eq_Nil_iff split: option.split)
  have 2: "run_timer AutoSubmit s' = autoSubmit_callback s'"
    by (simp add: run_timer_def)
  have 3: "list_all is_space (userInput s') \<longrightarrow> autoSubmit_callback s' = s'"
    by (simp add: autoSubmit_callback_def trim_eq_Nil_iff)
  have 4: "\<not> list_all is_space (userInput s') \<longrightarrow>
      requests (autoSubmit_callback s') = requests s' @ [ProcessInput (trim (userInput s'))] \<and>
      pendingTurns (autoSubmit_callback s') =
        pendingTurns s' @ [(nextTyping s', trim (userInput s'))]"
    by (simp add: autoSubmit_callback_def processUserInput_requests
        processUserInput_pendingTurns trim_eq_Nil_iff)
  have 5: "\<exists>pre post. userInput s' = pre @ trim (userInput s') @ post \<and>
                  list_all is_space pre \<and> list_all is_space post"
    by (rule trim_decomp)
  have 6: "\<not> list_all is_space (userInput s') \<longrightarrow>
      \<not> is_space (hd (trim (userInput s'))) \<and> \<not> is_space (last (trim (userInput s')))"
    using trim_ends [of "userInput s'"] by (simp add: trim_eq_Nil_iff)
  from 1 2 3 4 5 6 show ?thesis by blast
qed

text \<open>
  An instance: \<^verbatim>\<open>hello\<close> with spaces around it is transcribed; in one run the field
  holds a no-break space and a space when the timer fires and no turn is made, in the
  other it was edited to \<^verbatim>\<open>hi\<close> with spaces around it and \<^verbatim>\<open>hi\<close> is submitted.
\<close>

theorem auto_submit_rechecks_field_witness:
  "timers (transcription_answered
      (Responded True 200
         (Json \<lparr>text_field = Some (lit '' hello ''), audio_field = None, error_field = None\<rparr>))
      init_state) = [(5000, HideStatus), (1000, AutoSubmit)] \<and>
   userInput (transcription_answered
      (Responded True 200
         (Json \<lparr>text_field = Some (lit '' hello ''), audio_field = None, error_field = None\<rparr>))
      init_state) = lit ''hello'' \<and>
   requests (autoSubmit_callback
      ((transcription_answered
          (Responded True 200
             (Json \<lparr>text_field = Some (lit '' hello ''), audio_field = None, error_field = None\<rparr>))
          init_state)\<lparr>userInput := [0xA0, 0x20]\<rparr>)) = [] \<and>
   requests (autoSubmit_callback
      ((transcription_answered
          (Responded True 200
             (Json \<lparr>text_field = Some (lit '' hello ''), audio_field = None, error_field = None\<rparr>))
          init_state)\<lparr>userInput := lit '' hi  ''\<rparr>)) = [ProcessInput (lit ''hi'')]"
proof -
  let ?b = "\<lparr>text_field = Some (lit '' hello ''), audio_field = None, error_field = None\<rparr>"
  let ?s = "transcription_answered (Responded True 200 (Json ?b)) init_state"
  have hb: "\<not> truthy (error_field ?b) \<and> truthy (text_field ?b) \<and>
            \<not> list_all is_space (the (text_field ?b))"
    by (simp add: lit_def is_space_def)
  have i: "timers init_state = [] \<and> requests init_state = []"
    by (simp add: init_state_def)
  have e: "list_all is_space (userInput (?s\<lparr>userInput := [0xA0, 0x20]\<rparr>))"
    by (simp add: is_space_def)
  have f: "\<not> list_all is_space (userInput (?s\<lparr>userInput := lit '' hi  ''\<rparr>))"
    by (simp add: lit_def is_space_def)
  have t: "trim (lit '' hi  '') = lit ''hi''"
    by (simp add: trim_def lit_def is_space_def)
  have u: "userInput ?s = lit ''hello''"
    by (simp add: transcription_answered_def processRecordedAudio_resume_def
        processRecordedAudio_try_def releaseStream_def updateStatusIndicator_def
        trim_def lit_def is_space_def split: option.split)
  from auto_submit_rechecks_field [of ?b 200 init_state "?s\<lparr>userInput := [0xA0, 0x20]\<rparr>"] hb e
  have "timers ?s = timers init_state @ [(5000, HideStatus), (1000, AutoSubmit)] \<and>
        requests ?s = requests init_state \<and>
        autoSubmit_callback (?s\<lparr>userInput := [0xA0, 0x20]\<rparr>) = ?s\<lparr>userInput := [0xA0, 0x20]\<rparr>"
    by blast
  with i have a: "timers ?s = [(5000, HideStatus), (1000, AutoSubmit)]"
    and r: "requests ?s = []"
    and b: "requests (autoSubmit_callback (?s\<lparr>userInput := [0xA0, 0x20]\<rparr>)) = []"
    by simp_all
  from auto_submit_rechecks_field [of ?b 200 init_state "?s\<lparr>userInput := lit '' hi  ''\<rparr>"] f
  have "requests (autoSubmit_callback (?s\<lparr>userInput := lit '' hi  ''\<rparr>)) =
          requests (?s\<lparr>userInput := lit '' hi  ''\<rparr>) @
            [ProcessInput (trim (userInput (?s\<lparr>userInput := lit '' hi  ''\<rparr>)))]"
    by blast
  then have c: "requests (autoSubmit_callback (?s\<lparr>userInput := lit '' hi  ''\<rparr>)) =
                  [ProcessInput (lit ''hi'')]"
    by (simp add: r t)
  from a u b c show ?thesis by blast
qed

end
